theory Spec2Isabelle
  imports Complex_Main "HOL-Library.Sublist" "HOL-Library.Multiset"
    "HOL-Library.Char_ord" "HOL-Library.List_Lexorder"
begin

section \<open>Python values, errors and dictionaries\<close>

text \<open>
  The agent of \<^verbatim>\<open>product_detection.py\<close> works on JSON-like dictionaries. A candidate
  (a detected product or a search result) is a \<^verbatim>\<open>Dict[str, Any]\<close>: a map from field
  names to Python values. Numbers (Python's \<^verbatim>\<open>int\<close> and \<^verbatim>\<open>float\<close>) are modelled as
  reals: a number is read as the exact value it denotes. Scores are only compared;
  \<^verbatim>\<open>find_best_deal\<close> and \<^verbatim>\<open>get_price_history\<close> also add, multiply and divide
  prices, and there the rounding of float arithmetic is not modelled. Strings are
  ASCII.
\<close>

datatype pyval =
    PyNone
  | PyBool bool
  | PyNum real
  | PyStr string
  | PyList "pyval list"
  | PyDict "(string \<times> pyval) list"

datatype py_error =
    KeyError string
  | AttributeError
  | TypeError
  | ValueError
  | OverflowError
  | ZeroDivisionError
  | AdapterError string

type_synonym candidate = "string \<rightharpoonup> pyval"

text \<open>What a source adapter call does: it raises, or it returns a list of candidates.\<close>

type_synonym outcome = "py_error + candidate list"

datatype log_entry =
    LogInfo string nat
  | LogError string py_error
  | LogWarning string
  | LogNote string

text \<open>\<^verbatim>\<open>d.get(k, default)\<close>\<close>

definition py_get :: "candidate \<Rightarrow> string \<Rightarrow> pyval \<Rightarrow> pyval" where
  "py_get d k dflt = (case d k of None \<Rightarrow> dflt | Some v \<Rightarrow> v)"

text \<open>
  The numeric reading of a value in a comparison with a number: \<^verbatim>\<open>bool\<close> is a subclass
  of \<^verbatim>\<open>int\<close>; every other non-number raises \<^verbatim>\<open>TypeError\<close> there.
\<close>

fun as_num :: "pyval \<Rightarrow> real option" where
  "as_num (PyNum r) = Some r"
| "as_num (PyBool b) = Some (if b then 1 else 0)"
| "as_num _ = None"

text \<open>\<^verbatim>\<open>str.lower()\<close> on ASCII text.\<close>

definition lower_char :: "char \<Rightarrow> char" where
  "lower_char c =
     (let n = (of_char c :: nat)
      in if 65 \<le> n \<and> n \<le> 90 then char_of (n + 32) else c)"

definition lower :: "string \<Rightarrow> string" where
  "lower s = map lower_char s"

text \<open>
  \<^verbatim>\<open>p["name"].lower()\<close>: \<^verbatim>\<open>KeyError\<close> without the key, \<^verbatim>\<open>AttributeError\<close> when the value
  is not a string.
\<close>

definition name_lower :: "candidate \<Rightarrow> py_error + string" where
  "name_lower p =
     (case p ''name'' of
        None \<Rightarrow> Inl (KeyError ''name'')
      | Some (PyStr s) \<Rightarrow> Inr (lower s)
      | Some _ \<Rightarrow> Inl AttributeError)"

text \<open>
  \<^verbatim>\<open>sorted(xs, key=lambda p: p.get(field, 0), reverse=True)\<close>. CPython reverses the list,
  sorts it with a stable ascending sort and reverses the result, which keeps elements
  with equal keys in their original order. Keys that are all numbers are ordered
  numerically; a list of fewer than two elements is never compared. A longer list with
  a key that is not a number is reported as \<^verbatim>\<open>TypeError\<close>, which Python raises as soon
  as such a key meets a number; lists whose keys are all strings are outside this model.
\<close>

definition score_key :: "string \<Rightarrow> candidate \<Rightarrow> pyval" where
  "score_key field p = py_get p field (PyNum 0)"

definition score :: "string \<Rightarrow> candidate \<Rightarrow> real" where
  "score field p = (case as_num (score_key field p) of Some r \<Rightarrow> r | None \<Rightarrow> 0)"

definition is_number :: "pyval \<Rightarrow> bool" where
  "is_number v = (case as_num v of None \<Rightarrow> False | Some r \<Rightarrow> True)"

definition numeric_keys :: "string \<Rightarrow> candidate list \<Rightarrow> bool" where
  "numeric_keys field xs = list_all (\<lambda>p. is_number (score_key field p)) xs"

definition py_sorted_desc :: "string \<Rightarrow> candidate list \<Rightarrow> py_error + candidate list" where
  "py_sorted_desc field xs =
     (if length xs \<le> 1 then Inr xs
      else if numeric_keys field xs then Inr (rev (sort_key (score field) (rev xs)))
      else Inl TypeError)"

text \<open>\<^verbatim>\<open>xs[:k]\<close> for an integer \<^verbatim>\<open>k\<close>: a negative \<^verbatim>\<open>k\<close> counts from the end.\<close>

definition py_slice_to :: "int \<Rightarrow> 'a list \<Rightarrow> 'a list" where
  "py_slice_to k xs =
     (if 0 \<le> k then take (nat k) xs else take (length xs - nat (- k)) xs)"

section \<open>Settings and options\<close>

definition DEFAULT_CONFIDENCE_THRESHOLD :: real where
  "DEFAULT_CONFIDENCE_THRESHOLD = 0.7"

definition DEFAULT_MAX_RESULTS :: int where
  "DEFAULT_MAX_RESULTS = 5"

record settings =
  confidence_threshold :: real
  max_results :: int

text \<open>
  \<^verbatim>\<open>__init__\<close>: the configured settings, with \<^verbatim>\<open>setdefault\<close> filling what the
  configuration leaves out.
\<close>

definition init_settings :: "real option \<Rightarrow> int option \<Rightarrow> settings" where
  "init_settings thr cap =
     \<lparr> confidence_threshold = (case thr of None \<Rightarrow> DEFAULT_CONFIDENCE_THRESHOLD | Some t \<Rightarrow> t),
       max_results = (case cap of None \<Rightarrow> DEFAULT_MAX_RESULTS | Some k \<Rightarrow> k) \<rparr>"

record options =
  opt_confidence_threshold :: "real option"
  opt_max_results :: "int option"

definition no_options :: options where
  "no_options = \<lparr> opt_confidence_threshold = None, opt_max_results = None \<rparr>"

text \<open>\<^verbatim>\<open>options.get("confidence_threshold", self.settings["confidence_threshold"])\<close>\<close>

definition effective_threshold :: "settings \<Rightarrow> options \<Rightarrow> real" where
  "effective_threshold st opts =
     (case opt_confidence_threshold opts of None \<Rightarrow> confidence_threshold st | Some t \<Rightarrow> t)"

definition effective_max_results :: "settings \<Rightarrow> options \<Rightarrow> int" where
  "effective_max_results st opts =
     (case opt_max_results opts of None \<Rightarrow> max_results st | Some k \<Rightarrow> k)"

section \<open>\<^verbatim>\<open>detect_products\<close>\<close>

text \<open>
  The Google Vision block (lines 133-139): the adapter is called inside
  \<^verbatim>\<open>try\<close>; what it returns extends \<^verbatim>\<open>detected_products\<close>, what it raises is logged.
\<close>

definition google_phase :: "string list \<Rightarrow> outcome \<Rightarrow> candidate list \<times> log_entry list" where
  "google_phase apis google =
     (if ''google_cloud_vision'' \<in> set apis then
        (case google of
           Inr products \<Rightarrow>
             (products, [LogInfo ''Detected products with Google Cloud Vision API'' (length products)])
         | Inl e \<Rightarrow>
             ([], [LogError ''Error detecting products with Google Cloud Vision API'' e]))
      else ([], []))"

text \<open>
  \<^verbatim>\<open>existing_names = {p["name"].lower() for p in detected_products}\<close>: the first
  candidate without a usable name raises.
\<close>

fun existing_names_of :: "candidate list \<Rightarrow> py_error + string set" where
  "existing_names_of [] = Inr {}"
| "existing_names_of (p # ps) =
     (case name_lower p of
        Inl e \<Rightarrow> Inl e
      | Inr n \<Rightarrow> (case existing_names_of ps of Inl e \<Rightarrow> Inl e | Inr s \<Rightarrow> Inr (insert n s)))"

text \<open>
  The loop of lines 147-150. It appends to \<^verbatim>\<open>detected_products\<close> in place, so when a
  candidate raises, what was appended before stays: the loop returns the list it
  reached and the exception, if any.
\<close>

fun merge_loop ::
  "candidate list \<Rightarrow> string set \<Rightarrow> candidate list \<Rightarrow> candidate list \<times> py_error option" where
  "merge_loop detected existing [] = (detected, None)"
| "merge_loop detected existing (product # products) =
     (case name_lower product of
        Inl e \<Rightarrow> (detected, Some e)
      | Inr n \<Rightarrow>
          if n \<notin> existing
          then merge_loop (detected @ [product]) (insert n existing) products
          else merge_loop detected existing products)"

text \<open>The OpenAI block (lines 142-153), one \<^verbatim>\<open>try\<close> around the call and the merge.\<close>

definition openai_phase ::
  "string list \<Rightarrow> int \<Rightarrow> outcome \<Rightarrow> candidate list \<Rightarrow> candidate list \<times> log_entry list" where
  "openai_phase apis cap openai detected =
     (if ''openai'' \<in> set apis \<and> (detected = [] \<or> int (length detected) < cap) then
        (case openai of
           Inl e \<Rightarrow> (detected, [LogError ''Error detecting products with OpenAI API'' e])
         | Inr products \<Rightarrow>
             (case existing_names_of detected of
                Inl e \<Rightarrow> (detected, [LogError ''Error detecting products with OpenAI API'' e])
              | Inr existing \<Rightarrow>
                  (case merge_loop detected existing products of
                     (detected', Some e) \<Rightarrow>
                       (detected', [LogError ''Error detecting products with OpenAI API'' e])
                   | (detected', None) \<Rightarrow>
                       (detected', [LogInfo ''Detected products with OpenAI API'' (length products)]))))
      else (detected, []))"

text \<open>
  The comprehension of lines 156-159: \<^verbatim>\<open>p.get("confidence", 0) >= confidence_threshold\<close>
  against a float threshold raises \<^verbatim>\<open>TypeError\<close> on a confidence that is not a number.
\<close>

fun filter_confidence :: "real \<Rightarrow> candidate list \<Rightarrow> py_error + candidate list" where
  "filter_confidence thr [] = Inr []"
| "filter_confidence thr (p # ps) =
     (case as_num (score_key ''confidence'' p) of
        None \<Rightarrow> Inl TypeError
      | Some c \<Rightarrow>
          (case filter_confidence thr ps of
             Inl e \<Rightarrow> Inl e
           | Inr rest \<Rightarrow> Inr (if thr \<le> c then p # rest else rest)))"

text \<open>Lines 156-166: filter, sort, truncate. Nothing here is inside a \<^verbatim>\<open>try\<close>.\<close>

definition rank_detected :: "real \<Rightarrow> int \<Rightarrow> candidate list \<Rightarrow> py_error + candidate list" where
  "rank_detected thr cap detected =
     (case filter_confidence thr detected of
        Inl e \<Rightarrow> Inl e
      | Inr filtered \<Rightarrow>
          (case py_sorted_desc ''confidence'' filtered of
             Inl e \<Rightarrow> Inl e
           | Inr sorted_products \<Rightarrow> Inr (py_slice_to cap sorted_products)))"

text \<open>
  The whole function. The two adapter calls are given by their outcomes; the messages
  written to the logger are returned with the result, since they are written whether
  or not the function returns.
\<close>

definition detect_products ::
  "string list \<Rightarrow> settings \<Rightarrow> options \<Rightarrow> outcome \<Rightarrow> outcome
     \<Rightarrow> log_entry list \<times> (py_error + candidate list)" where
  "detect_products apis st opts google openai =
     (let thr = effective_threshold st opts;
          cap = effective_max_results st opts;
          (d1, log1) = google_phase apis google;
          (d2, log2) = openai_phase apis cap openai d1
      in (log1 @ log2, rank_detected thr cap d2))"

text \<open>
  The records the two detection adapters build: lines 220-226, 234-240 and 248-254 for
  Google Vision (an object, a logo or a label, with its score), lines 348-359 for
  OpenAI (from an object \<^verbatim>\<open>item\<close> of the parsed answer).
\<close>

definition vision_product ::
  "string \<Rightarrow> real \<Rightarrow> string \<Rightarrow> pyval list \<Rightarrow> (string \<times> pyval) list \<Rightarrow> candidate" where
  "vision_product n sc kind vertices attributes =
     [''name'' \<mapsto> PyStr n, ''confidence'' \<mapsto> PyNum sc, ''type'' \<mapsto> PyStr kind,
      ''bounding_box'' \<mapsto> PyList vertices, ''attributes'' \<mapsto> PyDict attributes]"

definition openai_product :: "candidate \<Rightarrow> candidate" where
  "openai_product item =
     [''name'' \<mapsto> py_get item ''name'' (PyStr ''Unknown Product''),
      ''confidence'' \<mapsto> py_get item ''confidence'' (PyNum 0.7),
      ''type'' \<mapsto> PyStr ''product'',
      ''bounding_box'' \<mapsto> PyList [],
      ''attributes'' \<mapsto>
        PyDict [(''brand'', py_get item ''brand'' PyNone),
                (''category'', py_get item ''category'' PyNone),
                (''features'', py_get item ''features'' (PyList [])),
                (''estimated_price_range'', py_get item ''estimated_price_range'' PyNone)]]"

section \<open>\<^verbatim>\<open>search_products\<close>\<close>

text \<open>The Amazon block (lines 390-396).\<close>

definition amazon_phase :: "string list \<Rightarrow> outcome \<Rightarrow> candidate list \<times> log_entry list" where
  "amazon_phase apis amazon =
     (if ''amazon_product_api'' \<in> set apis then
        (case amazon of
           Inr amazon_results \<Rightarrow>
             (amazon_results, [LogInfo ''Found products on Amazon'' (length amazon_results)])
         | Inl e \<Rightarrow> ([], [LogError ''Error searching Amazon'' e]))
      else ([], []))"

text \<open>
  \<^verbatim>\<open>hasattr(self, "_search_" + name)\<close>: the class defines \<^verbatim>\<open>_search_walmart\<close> and
  \<^verbatim>\<open>_search_ebay\<close>, and no method for Shopify or Etsy.
\<close>

definition has_search_method :: "string \<Rightarrow> bool" where
  "has_search_method api \<longleftrightarrow> api = ''walmart_api'' \<or> api = ''ebay_api''"

definition other_platform_apis :: "string list" where
  "other_platform_apis = [''walmart_api'', ''ebay_api'', ''shopify_api'', ''etsy_api'']"

text \<open>
  The loop of lines 399-408 over the other platforms; \<^verbatim>\<open>platform api\<close> is the outcome
  of calling the search method of \<^verbatim>\<open>api\<close>. In the log the platform is named by its
  API key, and the number of results stands beside the message.
\<close>

fun platform_loop ::
  "string list \<Rightarrow> (string \<Rightarrow> outcome) \<Rightarrow> string list \<Rightarrow> candidate list \<times> log_entry list" where
  "platform_loop apis platform [] = ([], [])"
| "platform_loop apis platform (api_name # rest) =
     (let (results, lg) =
            (if api_name \<in> set apis then
               (if has_search_method api_name then
                  (case platform api_name of
                     Inr results \<Rightarrow> (results, [LogInfo (''Found products on '' @ api_name) (length results)])
                   | Inl e \<Rightarrow> ([], [LogError (''Error searching '' @ api_name) e]))
                else ([], []))
             else ([], []));
          (more, lg') = platform_loop apis platform rest
      in (results @ more, lg @ lg'))"

text \<open>Lines 411-417: mock results from OpenAI, asked for only when nothing was found.\<close>

definition mock_phase ::
  "string list \<Rightarrow> outcome \<Rightarrow> candidate list \<Rightarrow> candidate list \<times> log_entry list" where
  "mock_phase apis mock all_results =
     (if all_results = [] \<and> ''openai'' \<in> set apis then
        (case mock of
           Inr mock_results \<Rightarrow>
             (all_results @ mock_results, [LogInfo ''Generated mock product results'' (length mock_results)])
         | Inl e \<Rightarrow> (all_results, [LogError ''Error generating mock results'' e]))
      else (all_results, []))"

text \<open>What reaches line 420: the concatenation of what the adapters returned.\<close>

definition gather_results ::
  "string list \<Rightarrow> outcome \<Rightarrow> (string \<Rightarrow> outcome) \<Rightarrow> outcome \<Rightarrow> candidate list \<times> log_entry list" where
  "gather_results apis amazon platform mock =
     (let (r1, log1) = amazon_phase apis amazon;
          (r2, log2) = platform_loop apis platform other_platform_apis;
          (r3, log3) = mock_phase apis mock (r1 @ r2)
      in (r3, log1 @ log2 @ log3))"

text \<open>Line 420: sort by relevance, descending, and truncate.\<close>

definition rank_results :: "int \<Rightarrow> candidate list \<Rightarrow> py_error + candidate list" where
  "rank_results cap all_results =
     (case py_sorted_desc ''relevance'' all_results of
        Inl e \<Rightarrow> Inl e
      | Inr sorted_results \<Rightarrow> Inr (py_slice_to cap sorted_results))"

definition search_products ::
  "string list \<Rightarrow> settings \<Rightarrow> options \<Rightarrow> outcome \<Rightarrow> (string \<Rightarrow> outcome) \<Rightarrow> outcome
     \<Rightarrow> log_entry list \<times> (py_error + candidate list)" where
  "search_products apis st opts amazon platform mock =
     (let cap = effective_max_results st opts;
          (all_results, lg) = gather_results apis amazon platform mock
      in (lg, rank_results cap all_results))"

section \<open>\<^verbatim>\<open>find_best_deal\<close>\<close>

definition deal_platforms :: "string list" where
  "deal_platforms = [''Amazon'', ''Walmart'', ''eBay'', ''Target'', ''BestBuy'']"

text \<open>Lines 710-713: the platforms with a configured API, or all of them when none is.\<close>

definition available_platforms :: "string list \<Rightarrow> string list" where
  "available_platforms apis =
     (let available = filter (\<lambda>p. lower p @ ''_api'' \<in> set apis) deal_platforms
      in if available = [] then deal_platforms else available)"

text \<open>
  \<^verbatim>\<open>hasattr(self, "_search_" + platform.lower())\<close>: the class has \<^verbatim>\<open>_search_amazon\<close>,
  \<^verbatim>\<open>_search_walmart\<close> and \<^verbatim>\<open>_search_ebay\<close>.
\<close>

definition has_deal_method :: "string \<Rightarrow> bool" where
  "has_deal_method platform \<longleftrightarrow>
     lower platform = ''amazon'' \<or> lower platform = ''walmart'' \<or> lower platform = ''ebay''"

text \<open>
  The loop of lines 715-726; \<^verbatim>\<open>source platform\<close> is the outcome of the search on that
  platform. A search method is called inside \<^verbatim>\<open>try\<close>; the mock results of a platform
  without a method are generated outside of it, so what that call raises leaves the
  function.
\<close>

fun deal_loop ::
  "(string \<Rightarrow> outcome) \<Rightarrow> string list \<Rightarrow> candidate list \<Rightarrow> log_entry list
     \<Rightarrow> log_entry list \<times> (py_error + candidate list)" where
  "deal_loop source [] all_results lg = (lg, Inr all_results)"
| "deal_loop source (platform # rest) all_results lg =
     (if has_deal_method platform then
        (case source platform of
           Inr results \<Rightarrow> deal_loop source rest (all_results @ results) lg
         | Inl e \<Rightarrow>
             deal_loop source rest all_results (lg @ [LogError (''Error searching '' @ platform) e]))
      else
        (case source platform of
           Inr results \<Rightarrow> deal_loop source rest (all_results @ results) lg
         | Inl e \<Rightarrow> (lg, Inl e)))"

text \<open>
  The key of line 733, \<^verbatim>\<open>x.get("price", float("inf"))\<close>: a number, or infinity for a
  record without a price.
\<close>

datatype price_key = Finite real | Infinite

fun key_less :: "price_key \<Rightarrow> price_key \<Rightarrow> bool" where
  "key_less (Finite a) (Finite b) \<longleftrightarrow> a < b"
| "key_less (Finite a) Infinite \<longleftrightarrow> True"
| "key_less Infinite _ \<longleftrightarrow> False"

definition price_key_of :: "candidate \<Rightarrow> py_error + price_key" where
  "price_key_of x =
     (case x ''price'' of
        None \<Rightarrow> Inr Infinite
      | Some v \<Rightarrow> (case as_num v of Some r \<Rightarrow> Inr (Finite r) | None \<Rightarrow> Inl TypeError))"

text \<open>
  \<^verbatim>\<open>min(all_results, key=...)\<close>: the first element is the running minimum, and a later
  one replaces it only when its key is strictly smaller. A key that is not a number
  is reported as \<^verbatim>\<open>TypeError\<close> when it is compared; line 736 raises the same error
  on such a price in any case.
\<close>

fun min_from :: "candidate \<Rightarrow> candidate list \<Rightarrow> py_error + candidate" where
  "min_from best [] = Inr best"
| "min_from best (x # xs) =
     (case price_key_of x of
        Inl e \<Rightarrow> Inl e
      | Inr kx \<Rightarrow>
          (case price_key_of best of
             Inl e \<Rightarrow> Inl e
           | Inr kb \<Rightarrow> min_from (if key_less kx kb then x else best) xs))"

definition min_by_price :: "candidate list \<Rightarrow> py_error + candidate" where
  "min_by_price all_results =
     (case all_results of [] \<Rightarrow> Inl ValueError | x # xs \<Rightarrow> min_from x xs)"

text \<open>\<^verbatim>\<open>sum(item.get("price", 0) for item in all_results)\<close>\<close>

fun sum_prices :: "candidate list \<Rightarrow> py_error + real" where
  "sum_prices [] = Inr 0"
| "sum_prices (item # items) =
     (case as_num (py_get item ''price'' (PyNum 0)) of
        None \<Rightarrow> Inl TypeError
      | Some r \<Rightarrow> (case sum_prices items of Inl e \<Rightarrow> Inl e | Inr t \<Rightarrow> Inr (r + t)))"

text \<open>The dictionary of lines 737-743.\<close>

definition comparison_of :: "real \<Rightarrow> real \<Rightarrow> nat \<Rightarrow> string list \<Rightarrow> pyval" where
  "comparison_of average_price best_price total_results platforms =
     PyDict
       [(''average_price'', PyNum average_price),
        (''savings'', PyNum (average_price - best_price)),
        (''savings_percentage'',
           PyNum (if average_price > 0 then (average_price - best_price) / average_price * 100 else 0)),
        (''total_results'', PyNum (real total_results)),
        (''platforms_searched'', PyList (map PyStr platforms))]"

text \<open>
  Lines 728-747 on the gathered list. \<^verbatim>\<open>best_deal\<close> is one of the records of
  \<^verbatim>\<open>all_results\<close>, and the assignment of line 737 writes into that record.
\<close>

definition best_of :: "string list \<Rightarrow> candidate list \<Rightarrow> py_error + candidate" where
  "best_of platforms all_results =
     (case min_by_price all_results of
        Inl e \<Rightarrow> Inl e
      | Inr best_deal \<Rightarrow>
          (case sum_prices all_results of
             Inl e \<Rightarrow> Inl e
           | Inr price_sum \<Rightarrow>
               (let average_price = price_sum / real (length all_results)
                in case as_num (py_get best_deal ''price'' (PyNum 0)) of
                     None \<Rightarrow> Inl TypeError
                   | Some best_price \<Rightarrow>
                       Inr (best_deal(''comparison'' \<mapsto>
                              comparison_of average_price best_price (length all_results) platforms)))))"

definition find_best_deal ::
  "string list \<Rightarrow> (string \<Rightarrow> outcome) \<Rightarrow> log_entry list \<times> (py_error + candidate)" where
  "find_best_deal apis source =
     (case deal_loop source (available_platforms apis) [] [] of
        (lg, Inl e) \<Rightarrow> (lg, Inl e)
      | (lg, Inr all_results) \<Rightarrow>
          if all_results = []
          then (lg @ [LogWarning ''No results found''],
                Inr [''error'' \<mapsto> PyStr ''No results found''])
          else (case best_of (available_platforms apis) all_results of
                  Inl e \<Rightarrow> (lg, Inl e)
                | Inr best_deal \<Rightarrow> (lg @ [LogNote ''Found best deal''], Inr best_deal)))"

section \<open>\<^verbatim>\<open>get_price_history\<close>\<close>
















section \<open>Notions used in the statements\<close>

text \<open>What an adapter contributes to a merge: its list, or nothing when it raised.\<close>

definition contrib :: "outcome \<Rightarrow> candidate list" where
  "contrib oc = (case oc of Inl e \<Rightarrow> [] | Inr xs \<Rightarrow> xs)"


text \<open>
  The concatenation of the source lists of \<^verbatim>\<open>search_products\<close>, in the order the
  function consults them (Shopify and Etsy have no search method).
\<close>

definition search_concat :: "outcome \<Rightarrow> (string \<Rightarrow> outcome) \<Rightarrow> outcome \<Rightarrow> candidate list" where
  "search_concat amazon platform mock =
     contrib amazon @ contrib (platform ''walmart_api'') @ contrib (platform ''ebay_api'') @ contrib mock"

text \<open>
  The candidates that reach the filter of \<^verbatim>\<open>detect_products\<close> (line 156), and those
  that reach the sort of \<^verbatim>\<open>search_products\<close> (line 420).
\<close>

definition merged_detected :: "string list \<Rightarrow> int \<Rightarrow> outcome \<Rightarrow> outcome \<Rightarrow> candidate list" where
  "merged_detected apis cap google openai =
     fst (openai_phase apis cap openai (fst (google_phase apis google)))"

definition gathered :: "string list \<Rightarrow> outcome \<Rightarrow> (string \<Rightarrow> outcome) \<Rightarrow> outcome \<Rightarrow> candidate list" where
  "gathered apis amazon platform mock = fst (gather_results apis amazon platform mock)"

text \<open>The records \<^verbatim>\<open>find_best_deal\<close> gathers from the platforms (empty when the loop raised).\<close>

definition deal_results :: "string list \<Rightarrow> (string \<Rightarrow> outcome) \<Rightarrow> candidate list" where
  "deal_results apis source =
     (case snd (deal_loop source (available_platforms apis) [] []) of
        Inl e \<Rightarrow> [] | Inr all_results \<Rightarrow> all_results)"

text \<open>Scores that never increase along a list.\<close>

definition non_increasing :: "real list \<Rightarrow> bool" where
  "non_increasing rs = sorted_wrt (\<lambda>a b. b \<le> a) rs"

text \<open>
  Stability: for every score, the candidates of \<^verbatim>\<open>out\<close> with that score stand in the
  order they have in \<^verbatim>\<open>src\<close>.
\<close>

definition keeps_order :: "string \<Rightarrow> candidate list \<Rightarrow> candidate list \<Rightarrow> bool" where
  "keeps_order field out src \<longleftrightarrow> (\<forall>s. subseq (filter (\<lambda>p. score field p = s) out) src)"





section \<open>Example data\<close>

text \<open>Detected products: a name and a confidence.\<close>

definition product :: "string \<Rightarrow> real \<Rightarrow> candidate" where
  "product n c = [''name'' \<mapsto> PyStr n, ''confidence'' \<mapsto> PyNum c]"

definition shoe_vision :: candidate where "shoe_vision = product ''Shoe'' 0.9"

definition shoe_label :: candidate where "shoe_label = product ''Shoe'' 0.8"

definition bag_vision :: candidate where "bag_vision = product ''Bag'' 0.9"

definition shoe_openai :: candidate where "shoe_openai = product ''shoe'' 0.99"

definition hat_openai :: candidate where "hat_openai = product ''Hat'' 0.95"


definition gadget_negative :: candidate where "gadget_negative = product ''Gadget'' (- 0.5)"

definition unrated :: candidate where
  "unrated = [''name'' \<mapsto> PyStr ''Sock'']"

definition vague :: candidate where
  "vague = [''name'' \<mapsto> PyStr ''Lamp'', ''confidence'' \<mapsto> PyStr ''high'']"

text \<open>Search results: a name, a platform, a price and a relevance.\<close>

definition listing :: "string \<Rightarrow> string \<Rightarrow> real \<Rightarrow> real \<Rightarrow> candidate" where
  "listing n pf pr r =
     [''name'' \<mapsto> PyStr n, ''platform'' \<mapsto> PyStr pf, ''price'' \<mapsto> PyNum pr,
      ''relevance'' \<mapsto> PyNum r]"

definition shoe_amazon :: candidate where "shoe_amazon = listing ''Shoe'' ''Amazon'' 59.99 0.5"

definition shoe_walmart :: candidate where "shoe_walmart = listing ''shoe'' ''Walmart'' 49.99 0.9"

text \<open>Configurations, options and adapters.\<close>

definition both_apis :: "string list" where
  "both_apis = [''google_cloud_vision'', ''openai'']"

definition shop_apis :: "string list" where
  "shop_apis = [''amazon_product_api'', ''walmart_api'']"


definition default_settings :: settings where
  "default_settings = init_settings None None"



definition shop_platform :: "string \<Rightarrow> outcome" where
  "shop_platform api = (if api = ''walmart_api'' then Inr [shoe_walmart] else Inr [])"



definition deal_source :: "string \<Rightarrow> outcome" where
  "deal_source pf =
     (if pf = ''Amazon'' then Inr [shoe_amazon]
      else if pf = ''Walmart'' then Inr [shoe_walmart]
      else Inr [])"



section \<open>Facts about the model\<close>

subsection \<open>Sorting and truncation\<close>

lemma sorted_desc_rev_sort:
  "sorted_wrt (\<lambda>a b. b \<le> a) (map f (rev (sort_key f xs)))"
  by (simp add: rev_map[symmetric] sorted_wrt_rev)

lemma filter_rev_sort:
  "filter (\<lambda>p. f p = s) (rev (sort_key f (rev xs))) = filter (\<lambda>p. f p = s) xs"
  by (simp add: rev_filter[symmetric] sort_key_stable)

lemma py_sorted_desc_sorted:
  "py_sorted_desc field xs = Inr ys \<Longrightarrow> sorted_wrt (\<lambda>a b. b \<le> a) (map (score field) ys)"
  by (auto simp: py_sorted_desc_def sorted_desc_rev_sort split: if_splits) (cases ys; simp; cases "tl ys"; simp)

lemma py_sorted_desc_stable:
  "py_sorted_desc field xs = Inr ys \<Longrightarrow>
     filter (\<lambda>p. score field p = s) ys = filter (\<lambda>p. score field p = s) xs"
  by (auto simp: py_sorted_desc_def filter_rev_sort split: if_splits)

lemma py_sorted_desc_mset:
  "py_sorted_desc field xs = Inr ys \<Longrightarrow> mset ys = mset xs"
  by (auto simp: py_sorted_desc_def split: if_splits)

lemma py_sorted_desc_numeric:
  "numeric_keys field xs \<Longrightarrow> \<exists>ys. py_sorted_desc field xs = Inr ys"
  by (simp add: py_sorted_desc_def)

lemma py_slice_to_take: "\<exists>n. py_slice_to k xs = take n xs"
  by (auto simp: py_slice_to_def)


lemma py_slice_to_all:
  "int (length xs) \<le> k \<Longrightarrow> py_slice_to k xs = xs"
  by (simp add: py_slice_to_def)

lemma score_Some: "as_num (score_key field p) = Some c \<Longrightarrow> score field p = c"
  by (simp add: score_def)

lemma filter_confidence_Inr:
  "filter_confidence thr xs = Inr ys \<Longrightarrow>
     ys = filter (\<lambda>p. thr \<le> score ''confidence'' p) xs \<and> numeric_keys ''confidence'' xs"
proof (induction xs arbitrary: ys)
  case Nil
  then show ?case by (simp add: numeric_keys_def)
next
  case (Cons p ps)
  from Cons.prems obtain c rest where
    c: "as_num (score_key ''confidence'' p) = Some c" and
    rest: "filter_confidence thr ps = Inr rest" and
    ys: "ys = (if thr \<le> c then p # rest else rest)"
    by (auto split: option.splits sum.splits)
  from Cons.IH[OF rest] c ys show ?case
    by (simp add: score_Some numeric_keys_def is_number_def)
qed


lemma merge_loop_subseq:
  "\<exists>zs. fst (merge_loop d ex ps) = d @ zs \<and> subseq zs ps"
proof (induction ps arbitrary: d ex)
  case Nil
  then show ?case by simp
next
  case (Cons p ps)
  show ?case
  proof (cases "name_lower p")
    case (Inl e)
    then show ?thesis by simp
  next
    case (Inr n)
    show ?thesis
    proof (cases "n \<in> ex")
      case True
      with Inr Cons.IH[of d ex] show ?thesis by auto
    next
      case False
      from Cons.IH[of "d @ [p]" "insert n ex"] obtain zs where
        "fst (merge_loop (d @ [p]) (insert n ex) ps) = (d @ [p]) @ zs" "subseq zs ps" by blast
      with Inr False show ?thesis by (intro exI[of _ "p # zs"]) simp
    qed
  qed
qed

lemma google_phase_subseq: "subseq (fst (google_phase apis g)) (contrib g)"
  by (simp add: google_phase_def contrib_def split: sum.splits)

lemma merge_loop_result:
  "merge_loop d ex ps = (d', err) \<Longrightarrow> \<exists>zs. d' = d @ zs \<and> subseq zs ps"
  using merge_loop_subseq[of d ex ps] by simp

lemma openai_phase_subseq:
  "\<exists>zs. fst (openai_phase apis cap oc d) = d @ zs \<and> subseq zs (contrib oc)"
  by (auto simp: openai_phase_def contrib_def dest: merge_loop_result
           split: sum.splits prod.splits option.splits)

lemma amazon_phase_subseq: "subseq (fst (amazon_phase apis a)) (contrib a)"
  by (simp add: amazon_phase_def contrib_def split: sum.splits)

lemma platform_loop_subseq:
  "subseq (fst (platform_loop apis platform other_platform_apis))
          (contrib (platform ''walmart_api'') @ contrib (platform ''ebay_api''))"
  by (auto simp: other_platform_apis_def has_search_method_def contrib_def
           split: sum.splits intro: list_emb_append_mono)

lemma mock_phase_subseq:
  "\<exists>zs. fst (mock_phase apis mock rs) = rs @ zs \<and> subseq zs (contrib mock)"
  by (auto simp: mock_phase_def contrib_def split: sum.splits)

lemma gather_results_subseq:
  "subseq (fst (gather_results apis amazon platform mock)) (search_concat amazon platform mock)"
proof -
  obtain zs where zs: "fst (mock_phase apis mock (fst (amazon_phase apis amazon) @ fst (platform_loop apis platform other_platform_apis)))
      = (fst (amazon_phase apis amazon) @ fst (platform_loop apis platform other_platform_apis)) @ zs"
     "subseq zs (contrib mock)"
    using mock_phase_subseq by blast
  have "fst (gather_results apis amazon platform mock) =
     fst (mock_phase apis mock (fst (amazon_phase apis amazon) @ fst (platform_loop apis platform other_platform_apis)))"
    by (simp add: gather_results_def split: prod.splits)
  also have "\<dots> = fst (amazon_phase apis amazon) @ (fst (platform_loop apis platform other_platform_apis) @ zs)"
    using zs(1) by simp
  also have "subseq \<dots> (contrib amazon @ ((contrib (platform ''walmart_api'') @ contrib (platform ''ebay_api'')) @ contrib mock))"
    by (intro list_emb_append_mono amazon_phase_subseq platform_loop_subseq zs(2))
  finally show ?thesis by (simp add: search_concat_def)
qed

lemma subseq_take: "subseq (take n xs) xs"
  by (metis append_take_drop_id list_emb_prefix subseq_order.order_refl)

lemma rank_sorted_stable:
  assumes "py_sorted_desc field xs = Inr ys"
  shows "non_increasing (map (score field) (py_slice_to cap ys))"
    and "keeps_order field (py_slice_to cap ys) xs"
proof -
  obtain n where n: "py_slice_to cap ys = take n ys"
    using py_slice_to_take by blast
  have "sorted_wrt (\<lambda>a b. b \<le> a) (map (score field) ys)"
    using assms by (rule py_sorted_desc_sorted)
  then have "sorted_wrt (\<lambda>a b. b \<le> a) (take n (map (score field) ys))"
    by (rule sorted_wrt_take)
  then show "non_increasing (map (score field) (py_slice_to cap ys))"
    by (simp add: non_increasing_def n take_map)
  show "keeps_order field (py_slice_to cap ys) xs"
    unfolding keeps_order_def
  proof
    fix s
    have "subseq (filter (\<lambda>p. score field p = s) (take n ys)) (filter (\<lambda>p. score field p = s) ys)"
      by (intro subseq_filter subseq_take)
    also have "filter (\<lambda>p. score field p = s) ys = filter (\<lambda>p. score field p = s) xs"
      using assms by (rule py_sorted_desc_stable)
    also have "subseq \<dots> xs" by simp
    finally show "subseq (filter (\<lambda>p. score field p = s) (py_slice_to cap ys)) xs"
      by (simp add: n)
  qed
qed




lemma merged_subseq:
  "subseq (fst (openai_phase apis cap openai (fst (google_phase apis google))))
          (contrib google @ contrib openai)"
proof -
  obtain zs where "fst (openai_phase apis cap openai (fst (google_phase apis google)))
      = fst (google_phase apis google) @ zs" "subseq zs (contrib openai)"
    using openai_phase_subseq by blast
  then show ?thesis
    by (simp add: list_emb_append_mono google_phase_subseq)
qed

lemma detect_products_result:
  "snd (detect_products apis st opts google openai) =
     rank_detected (effective_threshold st opts) (effective_max_results st opts)
       (fst (openai_phase apis (effective_max_results st opts) openai (fst (google_phase apis google))))"
  by (simp add: detect_products_def Let_def split: prod.splits)

lemma search_products_result:
  "snd (search_products apis st opts amazon platform mock) =
     rank_results (effective_max_results st opts) (fst (gather_results apis amazon platform mock))"
  by (simp add: search_products_def Let_def split: prod.splits)

subsection \<open>Deduplication in \<^verbatim>\<open>detect_products\<close>\<close>






lemma py_sorted_desc_length:
  "py_sorted_desc field xs = Inr ys \<Longrightarrow> length ys = length xs"
  by (auto simp: py_sorted_desc_def split: if_splits)


lemma rank_detected_parts:
  assumes "rank_detected thr cap d = Inr out"
  obtains ys where
    "py_sorted_desc ''confidence'' (filter (\<lambda>p. thr \<le> score ''confidence'' p) d) = Inr ys"
    "out = py_slice_to cap ys" "numeric_keys ''confidence'' d"
proof -
  from assms obtain filtered ys where
    f: "filter_confidence thr d = Inr filtered" and
    s: "py_sorted_desc ''confidence'' filtered = Inr ys" and
    out: "out = py_slice_to cap ys"
    by (auto simp: rank_detected_def split: sum.splits)
  from filter_confidence_Inr[OF f] s out that show thesis by simp
qed





subsection \<open>Length of the output\<close>



lemma detect_products_rank:
  "detect_products apis st opts google openai = (lg, res) \<Longrightarrow>
     res = rank_detected (effective_threshold st opts) (effective_max_results st opts)
             (merged_detected apis (effective_max_results st opts) google openai)"
  using detect_products_result[of apis st opts google openai] by (simp add: merged_detected_def)

lemma search_products_rank:
  "search_products apis st opts amazon platform mock = (lg, res) \<Longrightarrow>
     res = rank_results (effective_max_results st opts) (gathered apis amazon platform mock)"
  using search_products_result[of apis st opts amazon platform mock] by (simp add: gathered_def)

subsection \<open>Scores that are low, negative or absent\<close>

lemma score_absent: "p field = None \<Longrightarrow> score field p = 0"
  by (simp add: score_def score_key_def py_get_def)

lemma rank_detected_mset:
  assumes "rank_detected thr cap d = Inr out" "int (length d) \<le> cap"
  shows "mset out = mset (filter (\<lambda>p. thr \<le> score ''confidence'' p) d)"
proof -
  from assms(1) obtain ys where
    s: "py_sorted_desc ''confidence'' (filter (\<lambda>p. thr \<le> score ''confidence'' p) d) = Inr ys"
    and out: "out = py_slice_to cap ys"
    by (rule rank_detected_parts)
  have "length ys \<le> length d"
    using py_sorted_desc_length[OF s] by simp
  with assms(2) have "py_slice_to cap ys = ys"
    by (intro py_slice_to_all) linarith
  with out py_sorted_desc_mset[OF s] show ?thesis by simp
qed

lemma rank_results_mset:
  assumes "numeric_keys ''relevance'' xs" "int (length xs) \<le> cap"
  shows "\<exists>out. rank_results cap xs = Inr out \<and> mset out = mset xs \<and>
               non_increasing (map (score ''relevance'') out)"
proof -
  from py_sorted_desc_numeric[OF assms(1)] obtain ys where
    s: "py_sorted_desc ''relevance'' xs = Inr ys" by blast
  have "py_slice_to cap ys = ys"
    using assms(2) py_sorted_desc_length[OF s] by (intro py_slice_to_all) simp
  with s py_sorted_desc_mset[OF s] rank_sorted_stable(1)[OF s, of cap] show ?thesis
    by (simp add: rank_results_def)
qed

subsection \<open>No error from the merge\<close>








lemma merged_detected_subseq:
  "subseq (merged_detected apis cap google openai) (contrib google @ contrib openai)"
  unfolding merged_detected_def by (rule merged_subseq)

lemma gathered_subseq:
  "subseq (gathered apis amazon platform mock) (search_concat amazon platform mock)"
  unfolding gathered_def by (rule gather_results_subseq)

lemma detect_products_snd:
  "snd (detect_products apis st opts google openai) =
     rank_detected (effective_threshold st opts) (effective_max_results st opts)
       (merged_detected apis (effective_max_results st opts) google openai)"
  by (simp add: detect_products_result merged_detected_def)


subsection \<open>Adapters that raise\<close>


lemma merge_loop_Nil_fst: "fst (merge_loop d ex []) = d"
  by simp











subsection \<open>The confidence threshold\<close>

lemma adapters_set_confidence:
  "vision_product n sc kind vertices attributes ''confidence'' \<noteq> None"
  "openai_product item ''confidence'' \<noteq> None"
  by (simp_all add: vision_product_def openai_product_def)



subsection \<open>The best deal\<close>

lemma sum_prices_Inr:
  "sum_prices xs = Inr t \<Longrightarrow>
     t = sum_list (map (score ''price'') xs) \<and> numeric_keys ''price'' xs"
proof (induction xs arbitrary: t)
  case Nil
  then show ?case by (simp add: numeric_keys_def)
next
  case (Cons x xs)
  from Cons.prems obtain r t' where
    r: "as_num (py_get x ''price'' (PyNum 0)) = Some r" and
    t': "sum_prices xs = Inr t'" and t: "t = r + t'"
    by (auto split: option.splits sum.splits)
  from r have "score ''price'' x = r" "is_number (score_key ''price'' x)"
    by (simp_all add: score_def score_key_def is_number_def)
  with Cons.IH[OF t'] t show ?case by (simp add: numeric_keys_def)
qed

lemma sum_prices_numeric:
  "numeric_keys ''price'' xs \<Longrightarrow> sum_prices xs = Inr (sum_list (map (score ''price'') xs))"
proof (induction xs)
  case Nil
  then show ?case by simp
next
  case (Cons x xs)
  then obtain r where r: "as_num (py_get x ''price'' (PyNum 0)) = Some r"
    by (auto simp: numeric_keys_def is_number_def score_key_def split: option.splits)
  then have "score ''price'' x = r" by (simp add: score_def score_key_def)
  with Cons r show ?case by (simp add: numeric_keys_def)
qed



lemma key_less_trans: "key_less a b \<Longrightarrow> key_less b c \<Longrightarrow> key_less a c"
  by (cases a; cases b; cases c) auto







lemma find_best_deal_snd:
  assumes "deal_results apis source \<noteq> []"
  shows "snd (find_best_deal apis source) =
           best_of (available_platforms apis) (deal_results apis source)"
  using assms
  by (auto simp: find_best_deal_def deal_results_def split: prod.splits sum.splits)

subsection \<open>What the functions change in a candidate\<close>

lemma subseq_mset: "subseq xs ys \<Longrightarrow> mset xs \<subseteq># mset ys"
  by (induction rule: list_emb.induct) (auto intro: subset_mset.order_trans)

lemma take_mset: "mset (take n xs) \<subseteq># mset xs"
  by (metis append_take_drop_id mset_subset_eq_add_left mset_append)

lemma rank_detected_sub_mset:
  assumes "rank_detected thr cap d = Inr out"
  shows "mset out \<subseteq># mset d"
proof -
  from assms obtain ys where
    s: "py_sorted_desc ''confidence'' (filter (\<lambda>p. thr \<le> score ''confidence'' p) d) = Inr ys"
    and out: "out = py_slice_to cap ys"
    by (rule rank_detected_parts)
  obtain n where "py_slice_to cap ys = take n ys"
    using py_slice_to_take by blast
  with out have "mset out \<subseteq># mset ys" by (simp add: take_mset)
  also have "mset ys = mset (filter (\<lambda>p. thr \<le> score ''confidence'' p) d)"
    using s by (rule py_sorted_desc_mset)
  also have "\<dots> \<subseteq># mset d" by simp
  finally show ?thesis .
qed

lemma rank_results_sub_mset:
  assumes "rank_results cap xs = Inr out"
  shows "mset out \<subseteq># mset xs"
proof -
  from assms obtain ys where
    s: "py_sorted_desc ''relevance'' xs = Inr ys" and out: "out = py_slice_to cap ys"
    by (auto simp: rank_results_def split: sum.splits)
  obtain n where "py_slice_to cap ys = take n ys"
    using py_slice_to_take by blast
  with out have "mset out \<subseteq># mset ys" by (simp add: take_mset)
  with py_sorted_desc_mset[OF s] show ?thesis by simp
qed

lemma min_from_member: "min_from best xs = Inr b \<Longrightarrow> b \<in> set (best # xs)"
  by (induction xs arbitrary: best) (auto split: sum.splits if_splits)

lemma best_of_Inr:
  assumes "best_of platforms all_results = Inr deal"
  shows "\<exists>best comparison. best \<in> set all_results \<and> deal = best(''comparison'' \<mapsto> comparison)"
proof -
  from assms obtain best where m: "min_by_price all_results = Inr best"
    by (auto simp: best_of_def split: sum.splits)
  then have "best \<in> set all_results"
    by (auto simp: min_by_price_def split: list.splits dest: min_from_member)
  moreover from assms m have "\<exists>comparison. deal = best(''comparison'' \<mapsto> comparison)"
    by (auto simp: best_of_def Let_def split: sum.splits option.splits)
  ultimately show ?thesis by blast
qed

subsection \<open>The price history\<close>










section \<open>The examples, evaluated\<close>

lemma product_name_lower: "name_lower (product n c) = Inr (lower n)"
  by (simp add: name_lower_def product_def)

lemma product_key: "score_key ''confidence'' (product n c) = PyNum c"
  by (simp add: score_key_def py_get_def product_def)

lemma product_score: "score ''confidence'' (product n c) = c"
  by (simp add: score_def product_key)

lemma lower_examples:
  "lower ''Shoe'' = ''shoe''" "lower ''shoe'' = ''shoe''" "lower ''Bag'' = ''bag''" "lower ''Hat'' = ''hat''"
  by code_simp+

lemma default_effective:
  "effective_threshold default_settings no_options = 0.7"
  "effective_max_results default_settings no_options = 5"
  by (simp_all add: effective_threshold_def effective_max_results_def default_settings_def
        init_settings_def no_options_def DEFAULT_CONFIDENCE_THRESHOLD_def DEFAULT_MAX_RESULTS_def)

lemma product_numeric: "as_num (score_key ''confidence'' (product n c)) = Some c"
  by (simp add: product_key)

text \<open>
  Google Vision finds a shoe and a bag with the same confidence, OpenAI a shoe with a
  higher one and a hat. The OpenAI shoe is dropped for its name, and the two Google
  candidates keep their order behind the hat.
\<close>

lemma detect_example:
  "detect_products both_apis default_settings no_options
     (Inr [shoe_vision, bag_vision]) (Inr [shoe_openai, hat_openai])
   = ([LogInfo ''Detected products with Google Cloud Vision API'' 2,
       LogInfo ''Detected products with OpenAI API'' 2],
      Inr [hat_openai, shoe_vision, bag_vision])"
proof -
  have g: "google_phase both_apis (Inr [shoe_vision, bag_vision])
             = ([shoe_vision, bag_vision],
                [LogInfo ''Detected products with Google Cloud Vision API'' 2])"
    by (simp add: google_phase_def both_apis_def)
  have o: "openai_phase both_apis 5 (Inr [shoe_openai, hat_openai]) [shoe_vision, bag_vision]
             = ([shoe_vision, bag_vision, hat_openai],
                [LogInfo ''Detected products with OpenAI API'' 2])"
    by (simp add: openai_phase_def both_apis_def shoe_vision_def bag_vision_def
          shoe_openai_def hat_openai_def product_name_lower lower_examples)
  have f: "filter_confidence 0.7 [shoe_vision, bag_vision, hat_openai]
             = Inr [shoe_vision, bag_vision, hat_openai]"
    by (simp add: shoe_vision_def bag_vision_def hat_openai_def product_numeric)
  have s: "py_sorted_desc ''confidence'' [shoe_vision, bag_vision, hat_openai]
             = Inr [hat_openai, shoe_vision, bag_vision]"
    by (simp add: py_sorted_desc_def numeric_keys_def is_number_def shoe_vision_def bag_vision_def
          hat_openai_def product_numeric product_score)
  have r: "rank_detected 0.7 5 [shoe_vision, bag_vision, hat_openai]
             = Inr [hat_openai, shoe_vision, bag_vision]"
    unfolding rank_detected_def f by (simp add: s py_slice_to_def)
  show ?thesis
    unfolding detect_products_def default_effective Let_def g by (simp add: o r)
qed

lemma listing_key: "score_key ''relevance'' (listing n pf pr r) = PyNum r"
  by (simp add: score_key_def py_get_def listing_def)

lemma listing_score: "score ''relevance'' (listing n pf pr r) = r"
  by (simp add: score_def listing_key)


text \<open>
  Amazon and Walmart both list a shoe; Walmart's is the more relevant, and both are
  returned.
\<close>

lemma search_example:
  "search_products shop_apis default_settings no_options (Inr [shoe_amazon]) shop_platform (Inr [])
   = ([LogInfo ''Found products on Amazon'' 1, LogInfo ''Found products on walmart_api'' 1],
      Inr [shoe_walmart, shoe_amazon])"
proof -
  have g: "gather_results shop_apis (Inr [shoe_amazon]) shop_platform (Inr [])
             = ([shoe_amazon, shoe_walmart],
                [LogInfo ''Found products on Amazon'' 1, LogInfo ''Found products on walmart_api'' 1])"
    by (simp add: gather_results_def amazon_phase_def other_platform_apis_def shop_apis_def
          has_search_method_def shop_platform_def mock_phase_def)
  have s: "py_sorted_desc ''relevance'' [shoe_amazon, shoe_walmart] = Inr [shoe_walmart, shoe_amazon]"
    by (simp add: py_sorted_desc_def numeric_keys_def is_number_def shoe_amazon_def
          shoe_walmart_def listing_key listing_score)
  show ?thesis
    unfolding search_products_def default_effective Let_def g
    by (simp add: rank_results_def s py_slice_to_def)
qed

lemma merged_example:
  "merged_detected both_apis 5 (Inr [shoe_vision, bag_vision]) (Inr [shoe_openai, hat_openai])
     = [shoe_vision, bag_vision, hat_openai]"
  by (simp add: merged_detected_def google_phase_def openai_phase_def both_apis_def
        shoe_vision_def bag_vision_def shoe_openai_def hat_openai_def product_name_lower
        lower_examples)

lemma gathered_example:
  "gathered shop_apis (Inr [shoe_amazon]) shop_platform (Inr []) = [shoe_amazon, shoe_walmart]"
  by (simp add: gathered_def gather_results_def amazon_phase_def other_platform_apis_def
        shop_apis_def has_search_method_def shop_platform_def mock_phase_def)

lemma gathered_numeric_example:
  "numeric_keys ''relevance'' [shoe_amazon, shoe_walmart]"
  by (simp add: numeric_keys_def is_number_def shoe_amazon_def shoe_walmart_def listing_key)


lemma lower_platforms:
  "lower ''Amazon'' = ''amazon''" "lower ''Walmart'' = ''walmart''" "lower ''eBay'' = ''ebay''"
  "lower ''Target'' = ''target''" "lower ''BestBuy'' = ''bestbuy''"
  by code_simp+

lemma deal_results_example: "deal_results [] deal_source = [shoe_amazon, shoe_walmart]"
  by (simp add: deal_results_def available_platforms_def deal_platforms_def has_deal_method_def
        lower_platforms deal_source_def)

lemma listing_price:
  "score_key ''price'' (listing n pf pr r) = PyNum pr" "score ''price'' (listing n pf pr r) = pr"
  "listing n pf pr r ''price'' = Some (PyNum pr)"
  by (simp_all add: score_def score_key_def py_get_def listing_def)

lemma deal_numeric_example: "numeric_keys ''price'' [shoe_amazon, shoe_walmart]"
  by (simp add: numeric_keys_def is_number_def shoe_amazon_def shoe_walmart_def listing_price)

text \<open>
  With no platform API configured, all five platforms are searched. The cheaper shoe is
  returned with the comparison: an average of 54.99 over two results.
\<close>

lemma find_best_deal_example:
  "snd (find_best_deal [] deal_source) =
     Inr (shoe_walmart(''comparison'' \<mapsto> comparison_of 54.99 49.99 2 deal_platforms))"
proof -
  have m: "min_by_price [shoe_amazon, shoe_walmart] = Inr shoe_walmart"
    by (simp add: min_by_price_def price_key_of_def shoe_amazon_def shoe_walmart_def listing_def)
  have "sum_prices [shoe_amazon, shoe_walmart]
          = Inr (sum_list (map (score ''price'') [shoe_amazon, shoe_walmart]))"
    by (rule sum_prices_numeric[OF deal_numeric_example])
  also have "sum_list (map (score ''price'') [shoe_amazon, shoe_walmart]) = 109.98"
    by (simp add: shoe_amazon_def shoe_walmart_def listing_price)
  finally have s: "sum_prices [shoe_amazon, shoe_walmart] = Inr 109.98" .
  have p: "as_num (py_get shoe_walmart ''price'' (PyNum 0)) = Some 49.99"
    by (simp add: shoe_walmart_def listing_def py_get_def)
  have a: "available_platforms [] = deal_platforms"
    by (simp add: available_platforms_def deal_platforms_def)
  have "best_of deal_platforms [shoe_amazon, shoe_walmart] =
          Inr (shoe_walmart(''comparison'' \<mapsto> comparison_of 54.99 49.99 2 deal_platforms))"
    unfolding best_of_def m s by (simp add: p eval_nat_numeral)
  then show ?thesis
    using find_best_deal_snd[of "[]" deal_source] by (simp add: deal_results_example a)
qed


text \<open>
  Google Vision can report the same name twice, as an object and as a label; the
  function takes the Google list as it is, and both are returned.
\<close>

lemma google_duplicates_example:
  "snd (detect_products both_apis default_settings no_options (Inr [shoe_vision, shoe_label]) (Inr []))
     = Inr [shoe_vision, shoe_label]"
proof -
  have m: "merged_detected both_apis 5 (Inr [shoe_vision, shoe_label]) (Inr [])
             = [shoe_vision, shoe_label]"
    by (simp add: merged_detected_def google_phase_def openai_phase_def both_apis_def
          shoe_vision_def shoe_label_def product_name_lower lower_examples)
  have f: "filter_confidence 0.7 [shoe_vision, shoe_label] = Inr [shoe_vision, shoe_label]"
    by (simp add: shoe_vision_def shoe_label_def product_numeric)
  have s: "py_sorted_desc ''confidence'' [shoe_vision, shoe_label] = Inr [shoe_vision, shoe_label]"
    by (simp add: py_sorted_desc_def numeric_keys_def is_number_def shoe_vision_def
          shoe_label_def product_numeric product_score)
  have "rank_detected 0.7 5 [shoe_vision, shoe_label] = Inr [shoe_vision, shoe_label]"
    unfolding rank_detected_def f by (simp add: s py_slice_to_def)
  then show ?thesis
    by (simp add: detect_products_snd default_effective m)
qed

text \<open>
  A confidence that is not a number is outside the candidates of the specification:
  the comparison with the threshold raises, outside of any \<^verbatim>\<open>try\<close>.
\<close>

lemma non_numeric_confidence_example:
  "snd (detect_products both_apis default_settings no_options (Inr []) (Inr [vague])) = Inl TypeError"
proof -
  have n: "name_lower vague = Inr ''lamp''"
    by (simp add: name_lower_def vague_def) code_simp
  have m: "merged_detected both_apis 5 (Inr []) (Inr [vague]) = [vague]"
    by (simp add: merged_detected_def google_phase_def openai_phase_def both_apis_def n)
  have "filter_confidence 0.7 [vague] = Inl TypeError"
    by (simp add: score_key_def py_get_def vague_def)
  then have "rank_detected 0.7 5 [vague] = Inl TypeError"
    by (simp add: rank_detected_def)
  then show ?thesis
    by (simp add: detect_products_snd default_effective m)
qed

section \<open>The claims\<close>

subsection \<open>C1: one entry per name, from the earlier source\<close>




subsection \<open>C2: sorted by score, stable on ties\<close>



subsection \<open>C3: length of the output\<close>




subsection \<open>C4: negative and absent scores\<close>

text \<open>
  Claim C4, as amended. A missing score is read as 0. \<^verbatim>\<open>search_products\<close> excludes no
  candidate for its relevance: when the relevances are numbers or absent and the cap
  is not below the number of candidates found, it returns all of them, in
  non-increasing order of relevance (so a negative relevance comes after an absent
  one). \<^verbatim>\<open>detect_products\<close> excludes the candidates whose confidence is below the
  threshold: when the cap is not below the number of merged candidates, it returns
  exactly the merged candidates at or above the threshold.
\<close>

theorem low_scores_kept_by_search_filtered_by_detect:
  "(p field = None \<longrightarrow> score field p = 0) \<and>
   (numeric_keys ''relevance'' (gathered apis2 amazon platform mock) \<and>
    int (length (gathered apis2 amazon platform mock)) \<le> effective_max_results st2 opts2 \<longrightarrow>
      (\<exists>out'. snd (search_products apis2 st2 opts2 amazon platform mock) = Inr out' \<and>
              mset out' = mset (gathered apis2 amazon platform mock) \<and>
              non_increasing (map (score ''relevance'') out'))) \<and>
   (detect_products apis st opts google openai = (lg, Inr out) \<and>
    int (length (merged_detected apis (effective_max_results st opts) google openai))
      \<le> effective_max_results st opts \<longrightarrow>
      mset out =
        mset (filter (\<lambda>p. effective_threshold st opts \<le> score ''confidence'' p)
                (merged_detected apis (effective_max_results st opts) google openai)))"
proof (intro conjI impI)
  assume "p field = None"
  then show "score field p = 0" by (rule score_absent)
next
  assume "numeric_keys ''relevance'' (gathered apis2 amazon platform mock) \<and>
    int (length (gathered apis2 amazon platform mock)) \<le> effective_max_results st2 opts2"
  then show "\<exists>out'. snd (search_products apis2 st2 opts2 amazon platform mock) = Inr out' \<and>
              mset out' = mset (gathered apis2 amazon platform mock) \<and>
              non_increasing (map (score ''relevance'') out')"
    using rank_results_mset[of "gathered apis2 amazon platform mock" "effective_max_results st2 opts2"]
    by (simp add: search_products_result gathered_def)
next
  assume a: "detect_products apis st opts google openai = (lg, Inr out) \<and>
    int (length (merged_detected apis (effective_max_results st opts) google openai))
      \<le> effective_max_results st opts"
  then have "rank_detected (effective_threshold st opts) (effective_max_results st opts)
             (merged_detected apis (effective_max_results st opts) google openai) = Inr out"
    using detect_products_rank by fastforce
  from rank_detected_mset[OF this] a
  show "mset out =
        mset (filter (\<lambda>p. effective_threshold st opts \<le> score ''confidence'' p)
                (merged_detected apis (effective_max_results st opts) google openai))"
    by simp
qed

theorem low_scores_kept_by_search_filtered_by_detect_witness:
  "unrated ''relevance'' = None \<and> score ''relevance'' unrated = 0 \<and>
   numeric_keys ''relevance'' (gathered shop_apis (Inr [shoe_amazon]) shop_platform (Inr [])) \<and>
   int (length (gathered shop_apis (Inr [shoe_amazon]) shop_platform (Inr [])))
     \<le> effective_max_results default_settings no_options \<and>
   snd (search_products shop_apis default_settings no_options (Inr [shoe_amazon]) shop_platform (Inr []))
     = Inr [shoe_walmart, shoe_amazon] \<and>
   mset [shoe_walmart, shoe_amazon] = mset (gathered shop_apis (Inr [shoe_amazon]) shop_platform (Inr [])) \<and>
   detect_products both_apis default_settings no_options
     (Inr [shoe_vision, bag_vision]) (Inr [shoe_openai, hat_openai])
     = ([LogInfo ''Detected products with Google Cloud Vision API'' 2,
         LogInfo ''Detected products with OpenAI API'' 2],
        Inr [hat_openai, shoe_vision, bag_vision]) \<and>
   int (length (merged_detected both_apis (effective_max_results default_settings no_options)
                  (Inr [shoe_vision, bag_vision]) (Inr [shoe_openai, hat_openai])))
     \<le> effective_max_results default_settings no_options \<and>
   mset [hat_openai, shoe_vision, bag_vision] =
     mset (filter (\<lambda>p. effective_threshold default_settings no_options \<le> score ''confidence'' p)
            (merged_detected both_apis (effective_max_results default_settings no_options)
               (Inr [shoe_vision, bag_vision]) (Inr [shoe_openai, hat_openai])))"
proof -
  have u: "unrated ''relevance'' = None"
    by (simp add: unrated_def)
  have n: "numeric_keys ''relevance'' (gathered shop_apis (Inr [shoe_amazon]) shop_platform (Inr []))"
    by (simp add: gathered_example gathered_numeric_example)
  have l: "int (length (gathered shop_apis (Inr [shoe_amazon]) shop_platform (Inr [])))
     \<le> effective_max_results default_settings no_options"
    by (simp add: gathered_example default_effective)
  have m: "int (length (merged_detected both_apis (effective_max_results default_settings no_options)
                  (Inr [shoe_vision, bag_vision]) (Inr [shoe_openai, hat_openai])))
     \<le> effective_max_results default_settings no_options"
    by (simp add: default_effective merged_example)
  from low_scores_kept_by_search_filtered_by_detect[of unrated "''relevance''" shop_apis
         "Inr [shoe_amazon]" shop_platform "Inr []" default_settings no_options
         both_apis default_settings no_options "Inr [shoe_vision, bag_vision]"
         "Inr [shoe_openai, hat_openai]" _ "[hat_openai, shoe_vision, bag_vision]"]
       u n l m detect_example search_example
  show ?thesis by simp
qed

text \<open>
  An OpenAI candidate with a negative confidence, the default threshold and a cap of 5:
  the candidate is not returned.
\<close>

theorem negative_confidence_excluded:
  "snd (detect_products both_apis default_settings no_options (Inr []) (Inr [gadget_negative])) = Inr [] \<and>
   score ''confidence'' gadget_negative = - 0.5 \<and>
   effective_max_results default_settings no_options = 5"
proof -
  have m: "merged_detected both_apis 5 (Inr []) (Inr [gadget_negative]) = [gadget_negative]"
    by (simp add: merged_detected_def google_phase_def openai_phase_def both_apis_def
          gadget_negative_def product_name_lower)
  have f: "filter_confidence 0.7 [gadget_negative] = Inr []"
    by (simp add: gadget_negative_def product_numeric)
  have "rank_detected 0.7 5 [gadget_negative] = Inr []"
    unfolding rank_detected_def f by (simp add: py_sorted_desc_def py_slice_to_def)
  then have "snd (detect_products both_apis default_settings no_options (Inr []) (Inr [gadget_negative]))
      = Inr []"
    using m by (simp add: detect_products_result default_effective merged_detected_def)
  then show ?thesis
    by (simp add: default_effective gadget_negative_def product_score)
qed

subsection \<open>C5: the merge cannot fail\<close>



subsection \<open>C6: an adapter that raises\<close>



subsection \<open>C7: candidates are not changed\<close>

text \<open>
  Claim C7, as amended. Every candidate returned by \<^verbatim>\<open>detect_products\<close> or by
  \<^verbatim>\<open>search_products\<close> is a candidate of a source adapter, with every field as the
  adapter produced it, and is returned no more often than the adapters produced it:
  the two functions only filter, reorder and truncate. \<^verbatim>\<open>find_best_deal\<close> returns one
  of the records of the platforms with the entry \<^verbatim>\<open>comparison\<close> set and every other
  field unchanged.
\<close>

theorem candidates_unchanged_except_comparison:
  "(detect_products apis st opts google openai = (lg, Inr out) \<longrightarrow>
      mset out \<subseteq># mset (contrib google @ contrib openai)) \<and>
   (search_products apis2 st2 opts2 amazon platform mock = (lg2, Inr out2) \<longrightarrow>
      mset out2 \<subseteq># mset (search_concat amazon platform mock)) \<and>
   (deal_results apis3 source \<noteq> [] \<and> snd (find_best_deal apis3 source) = Inr deal \<longrightarrow>
      (\<exists>best\<in>set (deal_results apis3 source).
         deal ''comparison'' \<noteq> None \<and> (\<forall>field. field \<noteq> ''comparison'' \<longrightarrow> deal field = best field)))"
proof (intro conjI impI)
  assume "detect_products apis st opts google openai = (lg, Inr out)"
  from detect_products_rank[OF this]
  have "mset out \<subseteq># mset (merged_detected apis (effective_max_results st opts) google openai)"
    by (intro rank_detected_sub_mset) simp
  also have "\<dots> \<subseteq># mset (contrib google @ contrib openai)"
    by (intro subseq_mset merged_detected_subseq)
  finally show "mset out \<subseteq># mset (contrib google @ contrib openai)" .
next
  assume "search_products apis2 st2 opts2 amazon platform mock = (lg2, Inr out2)"
  from search_products_rank[OF this]
  have "mset out2 \<subseteq># mset (gathered apis2 amazon platform mock)"
    by (intro rank_results_sub_mset) simp
  also have "\<dots> \<subseteq># mset (search_concat amazon platform mock)"
    by (intro subseq_mset gathered_subseq)
  finally show "mset out2 \<subseteq># mset (search_concat amazon platform mock)" .
next
  assume a: "deal_results apis3 source \<noteq> [] \<and> snd (find_best_deal apis3 source) = Inr deal"
  then have "best_of (available_platforms apis3) (deal_results apis3 source) = Inr deal"
    using find_best_deal_snd[of apis3 source] by simp
  from best_of_Inr[OF this] obtain best comparison where
    "best \<in> set (deal_results apis3 source)" "deal = best(''comparison'' \<mapsto> comparison)"
    by blast
  then show "\<exists>best\<in>set (deal_results apis3 source).
         deal ''comparison'' \<noteq> None \<and> (\<forall>field. field \<noteq> ''comparison'' \<longrightarrow> deal field = best field)"
    by (intro bexI[of _ best]) simp_all
qed

theorem candidates_unchanged_except_comparison_witness:
  "detect_products both_apis default_settings no_options
     (Inr [shoe_vision, bag_vision]) (Inr [shoe_openai, hat_openai])
     = ([LogInfo ''Detected products with Google Cloud Vision API'' 2,
         LogInfo ''Detected products with OpenAI API'' 2],
        Inr [hat_openai, shoe_vision, bag_vision]) \<and>
   mset [hat_openai, shoe_vision, bag_vision]
     \<subseteq># mset (contrib (Inr [shoe_vision, bag_vision]) @ contrib (Inr [shoe_openai, hat_openai])) \<and>
   search_products shop_apis default_settings no_options (Inr [shoe_amazon]) shop_platform (Inr [])
     = ([LogInfo ''Found products on Amazon'' 1, LogInfo ''Found products on walmart_api'' 1],
        Inr [shoe_walmart, shoe_amazon]) \<and>
   mset [shoe_walmart, shoe_amazon] \<subseteq># mset (search_concat (Inr [shoe_amazon]) shop_platform (Inr [])) \<and>
   deal_results [] deal_source \<noteq> [] \<and>
   snd (find_best_deal [] deal_source) =
     Inr (shoe_walmart(''comparison'' \<mapsto> comparison_of 54.99 49.99 2 deal_platforms)) \<and>
   (shoe_walmart(''comparison'' \<mapsto> comparison_of 54.99 49.99 2 deal_platforms)) ''comparison'' \<noteq> None"
proof -
  have n: "deal_results [] deal_source \<noteq> []"
    by (simp add: deal_results_example)
  from candidates_unchanged_except_comparison[of both_apis default_settings no_options
         "Inr [shoe_vision, bag_vision]" "Inr [shoe_openai, hat_openai]" _
         "[hat_openai, shoe_vision, bag_vision]"
         shop_apis default_settings no_options "Inr [shoe_amazon]" shop_platform "Inr []" _
         "[shoe_walmart, shoe_amazon]"
         "[]" deal_source
         "shoe_walmart(''comparison'' \<mapsto> comparison_of 54.99 49.99 2 deal_platforms)"]
       detect_example search_example n find_best_deal_example
  show ?thesis by blast
qed

text \<open>
  The record Walmart returned has no entry \<^verbatim>\<open>comparison\<close>; the record
  \<^verbatim>\<open>find_best_deal\<close> returns is that record with the entry added.
\<close>

theorem best_deal_gains_comparison_field:
  "deal_source ''Walmart'' = Inr [shoe_walmart] \<and>
   shoe_walmart ''comparison'' = None \<and>
   snd (find_best_deal [] deal_source) =
     Inr (shoe_walmart(''comparison'' \<mapsto> comparison_of 54.99 49.99 2 deal_platforms))"
  by (simp add: find_best_deal_example deal_source_def shoe_walmart_def listing_def)

subsection \<open>C8: the best deal\<close>



subsection \<open>C9: the confidence threshold\<close>



subsection \<open>C10: the price history\<close>




end
